theory Spec2Isabelle
  imports Complex_Main "HOL-Library.Word"
begin

section \<open>Strings of the front end\<close>

text \<open>
  A JavaScript string is a sequence of UTF-16 code units; \<open>length\<close> counts code units, as
  \<open>String.prototype.length\<close> does. String literals of the source are ASCII and are embedded
  with \<open>lit\<close>.
\<close>

type_synonym code_unit = "16 word"
type_synonym js_string = "code_unit list"

definition lit :: "string \<Rightarrow> js_string" where
  "lit s = map (\<lambda>c. of_nat (of_char c)) s"

text \<open>
  \<open>String.prototype.trim\<close> removes the leading and the trailing code units that are
  ECMAScript WhiteSpace or LineTerminator code points (all of them lie in the basic plane).
\<close>

definition isWhiteSpace :: "code_unit \<Rightarrow> bool" where
  "isWhiteSpace u \<longleftrightarrow> u \<in> set [0x0009, 0x000A, 0x000B, 0x000C, 0x000D, 0x0020, 0x00A0, 0x1680,
     0x2000, 0x2001, 0x2002, 0x2003, 0x2004, 0x2005, 0x2006, 0x2007, 0x2008, 0x2009, 0x200A,
     0x2028, 0x2029, 0x202F, 0x205F, 0x3000, 0xFEFF]"

definition trim :: "js_string \<Rightarrow> js_string" where
  "trim s = rev (dropWhile isWhiteSpace (rev (dropWhile isWhiteSpace s)))"

text \<open>\<open>x || d\<close> for a string-valued property \<open>x\<close> that may be missing: a missing
  property and the empty string are both falsy.\<close>

definition or_else :: "js_string option \<Rightarrow> js_string \<Rightarrow> js_string" where
  "or_else x d = (case x of None \<Rightarrow> d | Some s \<Rightarrow> if s = [] then d else s)"


section \<open>The API client (lib/api.ts)\<close>

text \<open>The one outbound call: \<open>api.get('/weather', { params: { city } })\<close>.\<close>

record request =
  url :: js_string
  params_city :: js_string

text \<open>
  \<open>interface CityWeather\<close>, the payload of a successful response. A \<open>number\<close> that
  arrived as JSON is a finite value; the client never computes with it.
\<close>

record CityWeather =
  weather_city :: js_string
  temperature :: real
  humidity :: real
  wind_speed :: real
  condition :: js_string
  fetched_at :: js_string
  provider :: js_string

text \<open>
  \<open>interface ErrorResponse\<close>. The cast \<open>as ErrorResponse\<close> is unchecked, so a property
  may be missing from the body that arrived: \<open>None\<close> is a missing property.
  \<open>details\<close> is a \<open>Record<string, any>\<close>; the type \<open>'v\<close> of its values is never inspected.
\<close>

record 'v ErrorResponse =
  body_code :: "js_string option"
  body_message :: "js_string option"
  body_details :: "(js_string \<rightharpoonup> 'v) option"

text \<open>The response attached to an Axios error. \<open>data = None\<close> is a falsy body
  (\<open>null\<close>, \<open>undefined\<close>, the empty string).\<close>

record 'v AxiosResponse =
  status :: nat
  data :: "'v ErrorResponse option"

record 'v AxiosError =
  err_code :: "js_string option"
  response :: "'v AxiosResponse option"

text \<open>
  What \<open>await api.get(...)\<close> does: it resolves with a response whose \<open>data\<close> is
  the payload \<open>'p\<close>, or rejects with a value for which \<open>axios.isAxiosError\<close> holds, or
  rejects with any other value \<open>'x\<close>.
\<close>

datatype ('p, 'v, 'x) outcome =
  Resolved 'p
  | RejectedAxios "'v AxiosError"
  | RejectedOther 'x

text \<open>\<open>class WeatherAPIError extends Error\<close>; its \<open>name\<close> is the constant
  \<open>'WeatherAPIError'\<close>.\<close>

record 'v WeatherAPIError =
  message :: js_string
  code :: js_string
  statusCode :: nat
  details :: "js_string \<rightharpoonup> 'v"

text \<open>The constructor; the parameter \<open>details\<close> defaults to \<open>{}\<close> when it is
  \<open>undefined\<close>.\<close>

definition new_WeatherAPIError ::
  "js_string \<Rightarrow> js_string \<Rightarrow> nat \<Rightarrow> (js_string \<rightharpoonup> 'v) option \<Rightarrow> 'v WeatherAPIError" where
  "new_WeatherAPIError m c s d =
     \<lparr>message = m, code = c, statusCode = s,
      details = (case d of None \<Rightarrow> Map.empty | Some ds \<Rightarrow> ds)\<rparr>"

text \<open>What a caller of \<open>getWeather\<close> can catch: a \<open>WeatherAPIError\<close>, or the value
  the HTTP call rejected with, thrown again.\<close>

datatype ('v, 'x) thrown =
  ApiError "'v WeatherAPIError"
  | Rethrown 'x

text \<open>The branch \<open>if (axios.isAxiosError(error)) { ... }\<close> of the \<open>catch\<close> block of
  \<open>getWeather\<close>, in the order of the source.\<close>

definition catchAxiosError :: "'v AxiosError \<Rightarrow> 'v WeatherAPIError" where
  "catchAxiosError e =
     (case Option.bind (response e) (\<lambda>r. map_option (Pair r) (data r)) of
        Some (r, errorData) \<Rightarrow>
          new_WeatherAPIError
            (or_else (body_message errorData) (lit ''Failed to fetch weather data''))
            (or_else (body_code errorData) (lit ''UNKNOWN_ERROR''))
            (status r)
            (body_details errorData)
      | None \<Rightarrow>
          if err_code e = Some (lit ''ECONNABORTED'') then
            new_WeatherAPIError (lit ''Request timed out. Please try again.'') (lit ''TIMEOUT'') 408 None
          else (case response e of
                  None \<Rightarrow>
                    new_WeatherAPIError
                      (lit ''Unable to connect to weather service. Please check your internet connection.'')
                      (lit ''NETWORK_ERROR'') 0 None
                | Some r \<Rightarrow>
                    new_WeatherAPIError (lit ''Failed to fetch weather data'') (lit ''UNKNOWN_ERROR'')
                      (status r) None))"

text \<open>
  \<open>getWeather\<close>. The HTTP layer is the parameter \<open>api_get\<close>; the result is the list of
  requests issued together with what the promise settles to (\<open>Inl\<close> is a rejection).
\<close>

definition getWeather ::
  "(request \<Rightarrow> ('p, 'v, 'x) outcome) \<Rightarrow> js_string \<Rightarrow> request list \<times> (('v, 'x) thrown + 'p)" where
  "getWeather api_get cityInput =
     (let req = \<lparr>url = lit ''/weather'', params_city = trim cityInput\<rparr> in
      ([req],
       case api_get req of
         Resolved d \<Rightarrow> Inr d
       | RejectedAxios e \<Rightarrow> Inl (ApiError (catchAxiosError e))
       | RejectedOther x \<Rightarrow> Inl (Rethrown x)))"

text \<open>\<open>getErrorMessage\<close>: the \<open>switch\<close> on \<open>error.code\<close>.\<close>

definition getErrorMessage :: "('v, 'x) thrown \<Rightarrow> js_string" where
  "getErrorMessage err =
     (case err of
        ApiError e \<Rightarrow>
          if code e = lit ''UNKNOWN_CITY'' then
            lit ''City not found. Please check the spelling and try again.''
          else if code e = lit ''TIMEOUT'' then lit ''Request timed out. Please try again.''
          else if code e = lit ''NETWORK_ERROR'' then
            lit ''Unable to connect. Please check your internet connection.''
          else if code e = lit ''BAD_REQUEST'' then
            or_else (Some (message e)) (lit ''Invalid request. Please check your input.'')
          else or_else (Some (message e)) (lit ''An unexpected error occurred.'')
      | Rethrown x \<Rightarrow> lit ''An unexpected error occurred. Please try again.'')"


section \<open>The application (App.tsx)\<close>

record 'p app_state =
  weather :: "'p option"
  loading :: bool
  error :: "js_string option"

text \<open>\<open>handleWeatherSearch\<close>, acting on the state of \<open>App\<close> and on the log of the
  requests that left the browser. It catches whatever \<open>getWeather\<close> throws; the line it
  writes to the console is not part of the state.\<close>

definition handleWeatherSearch ::
  "(request \<Rightarrow> ('p, 'v, 'x) outcome) \<Rightarrow> js_string \<Rightarrow> 'p app_state \<times> request list
     \<Rightarrow> 'p app_state \<times> request list" where
  "handleWeatherSearch api_get cityInput w =
     (case w of (app, net) \<Rightarrow>
        let app1 = app\<lparr>loading := True, error := None\<rparr> in
        case getWeather api_get cityInput of
          (reqs, Inr weatherData) \<Rightarrow>
            (app1\<lparr>weather := Some weatherData, loading := False\<rparr>, net @ reqs)
        | (reqs, Inl err) \<Rightarrow>
            (app1\<lparr>error := Some (getErrorMessage err), weather := None, loading := False\<rparr>,
             net @ reqs))"


section \<open>The form (components/WeatherForm.tsx)\<close>

text \<open>
  The file holds two revisions of the component. The state of the first is \<open>city\<close> and
  \<open>inputError\<close>; the second adds \<open>isSubmitting\<close>. The callback \<open>onSubmit\<close> acts on
  everything outside the form, the type \<open>'w\<close>.
\<close>

record form_state =
  city :: js_string
  inputError :: "js_string option"

record form_state2 = form_state +
  isSubmitting :: bool

text \<open>\<open>handleSubmit\<close> of the first revision (lines 17 to 38).\<close>

definition handleSubmit_1 ::
  "(js_string \<Rightarrow> 'w \<Rightarrow> 'w) \<Rightarrow> form_state \<Rightarrow> 'w \<Rightarrow> form_state \<times> 'w" where
  "handleSubmit_1 onSubmit st w =
     (let st1 = st\<lparr>inputError := None\<rparr>;
          trimmedCity = trim (city st)
      in if trimmedCity = [] then
           (st1\<lparr>inputError := Some (lit ''Please enter a city name'')\<rparr>, w)
         else if length trimmedCity > 100 then
           (st1\<lparr>inputError := Some (lit ''City name cannot exceed 100 characters'')\<rparr>, w)
         else (st1, onSubmit trimmedCity w))"

text \<open>\<open>handleSubmit\<close> of the second revision (lines 114 to 145), with the guard against a
  double submission; \<open>busy\<close> is the property \<open>loading\<close> of the component.\<close>

definition handleSubmit_2 ::
  "(js_string \<Rightarrow> 'w \<Rightarrow> 'w) \<Rightarrow> bool \<Rightarrow> form_state2 \<Rightarrow> 'w \<Rightarrow> form_state2 \<times> 'w" where
  "handleSubmit_2 onSubmit busy st w =
     (if isSubmitting st \<or> busy then (st, w)
      else
        let st1 = st\<lparr>inputError := None\<rparr>;
            trimmedCity = trim (city st)
        in if trimmedCity = [] then
             (st1\<lparr>inputError := Some (lit ''Please enter a city name'')\<rparr>, w)
           else if length trimmedCity > 100 then
             (st1\<lparr>inputError := Some (lit ''City name cannot exceed 100 characters'')\<rparr>, w)
           else
             let st2 = st1\<lparr>isSubmitting := True\<rparr>;
                 w' = onSubmit trimmedCity w
             in (st2\<lparr>isSubmitting := False\<rparr>, w'))"

text \<open>\<open>App\<close> renders \<open><WeatherForm onSubmit={handleWeatherSearch} loading={loading} .../>\<close>:
  a submit event of the form, in either revision, with \<open>App\<close> as the parent.\<close>

definition submit_1 ::
  "(request \<Rightarrow> ('p, 'v, 'x) outcome) \<Rightarrow> form_state \<Rightarrow> 'p app_state \<times> request list
     \<Rightarrow> form_state \<times> 'p app_state \<times> request list" where
  "submit_1 api_get st w = handleSubmit_1 (handleWeatherSearch api_get) st w"

definition submit_2 ::
  "(request \<Rightarrow> ('p, 'v, 'x) outcome) \<Rightarrow> form_state2 \<Rightarrow> 'p app_state \<times> request list
     \<Rightarrow> form_state2 \<times> 'p app_state \<times> request list" where
  "submit_2 api_get st w = handleSubmit_2 (handleWeatherSearch api_get) (loading (fst w)) st w"


section \<open>Values and invariants used to state the properties\<close>

text \<open>The HTTP layer of the tests, \<open>mockResolvedValue\<close> and \<open>mockRejectedValue\<close>: every
  request settles the same way.\<close>

definition respond_with :: "('p, 'v, 'x) outcome \<Rightarrow> request \<Rightarrow> ('p, 'v, 'x) outcome" where
  "respond_with out req = out"

text \<open>The \<open>jest.fn()\<close> that the tests pass as \<open>onSubmit\<close>: it records the argument of
  each call.\<close>

definition mock_onSubmit :: "js_string \<Rightarrow> js_string list \<Rightarrow> js_string list" where
  "mock_onSubmit c calls = calls @ [c]"

text \<open>JavaScript values for which \<open>axios.isAxiosError\<close> is false: \<open>undefined\<close>,
  \<open>null\<close>, a string, a plain \<open>Error\<close> with its message, an object literal.\<close>

datatype js_value =
  JsUndefined
  | JsNull
  | JsString js_string
  | JsError js_string
  | JsObject "(js_string \<times> js_value) list"

text \<open>
  The invariants that section 3 of the specification gives for a weather record, in the
  specification's words (humidity from 0 to 100, wind speed not negative, condition not
  empty). The source has no counterpart: nothing in the client evaluates them.
\<close>

definition spec_record_invariants :: "CityWeather \<Rightarrow> bool" where
  "spec_record_invariants r \<longleftrightarrow>
     0 \<le> humidity r \<and> humidity r \<le> 100 \<and> 0 \<le> wind_speed r \<and> condition r \<noteq> []"

text \<open>A payload that breaks each of them: \<open>mockWeatherData\<close> of the tests with the
  humidity, the wind speed and the condition changed.\<close>

definition out_of_range_payload :: CityWeather where
  "out_of_range_payload =
     \<lparr>weather_city = lit ''London'', temperature = 22.5, humidity = 150, wind_speed = - 1,
      condition = [], fetched_at = lit ''2024-01-15T10:30:00.000Z'', provider = lit ''weatherapi''\<rparr>"


section \<open>The retrieval pipeline of the back end\<close>

text \<open>
  Modelled from the spec: the error taxonomy of section 7. The back end
  (\<open>backend/app/domain/errors.py\<close>) is not among the source files.
\<close>

datatype error_kind =
  InvalidInput
  | UnknownCity
  | BadRequest
  | Timeout
  | NetworkUnavailable
  | UpstreamUnavailable
  | InternalProviderError

text \<open>
  Modelled from the spec: the Normalized Weather Record of section 3
  (\<open>backend/app/domain/entities.py\<close> is missing). \<open>measured\<close> stands for the fields the
  provider reports (city, temperature, humidity, wind speed, condition, provider);
  \<open>fetched_at_time\<close> is the time of the fetch, in seconds.
\<close>

record 'a weather_record =
  measured :: 'a
  fetched_at_time :: nat

text \<open>
  Modelled from the spec: the cache of section 4.3 (\<open>backend/app/infrastructure/cache.py\<close>
  is missing). An entry is a record with its insertion time; \<open>get\<close> treats an entry
  whose age exceeds the TTL as absent and deletes nothing; \<open>put\<close> overwrites.
\<close>

definition cache_get ::
  "nat \<Rightarrow> nat \<Rightarrow> ('k \<rightharpoonup> 'a weather_record \<times> nat) \<Rightarrow> 'k \<Rightarrow> 'a weather_record option" where
  "cache_get ttl now m k =
     (case m k of
        None \<Rightarrow> None
      | Some (r, inserted) \<Rightarrow> if now - inserted > ttl then None else Some r)"

definition cache_put ::
  "nat \<Rightarrow> ('k \<rightharpoonup> 'a weather_record \<times> nat) \<Rightarrow> 'k \<Rightarrow> 'a weather_record
     \<Rightarrow> ('k \<rightharpoonup> 'a weather_record \<times> nat)" where
  "cache_put now m k r = m(k \<mapsto> (r, now))"

text \<open>
  Modelled from the spec: the provider adapter of section 4.2
  (\<open>backend/app/infrastructure/weather_client.py\<close> is missing). The external provider is
  the parameter \<open>prov\<close>, which answers a city at a time with a classified error or with
  the measured fields; the adapter stamps a success with the time of the fetch.
\<close>

definition adapter_fetch ::
  "(js_string \<Rightarrow> nat \<Rightarrow> error_kind + 'a) \<Rightarrow> js_string \<Rightarrow> nat \<Rightarrow> error_kind + 'a weather_record" where
  "adapter_fetch prov c now =
     (case prov c now of
        Inl e \<Rightarrow> Inl e
      | Inr a \<Rightarrow> Inr \<lparr>measured = a, fetched_at_time = now\<rparr>)"

text \<open>
  Modelled from the spec: the state the retrieval use case works on, the cache and the
  log of the calls made to the provider adapter.
\<close>

record ('k, 'a) core_state =
  cache :: "'k \<rightharpoonup> 'a weather_record \<times> nat"
  provider_calls :: "js_string list"

text \<open>
  Modelled from the spec: the retrieval use case of section 4.1
  (\<open>backend/app/application/use_cases.py\<close> is missing), steps 1 to 5: validate the
  trimmed input, look the normalized key up, on a miss delegate the trimmed city to the
  adapter, write a success to the cache, propagate a failure without writing. The case
  folding of the key is the parameter \<open>casefold\<close>, the TTL is \<open>ttl\<close>, the clock reads
  \<open>now\<close>.
\<close>

definition core_getWeather ::
  "(js_string \<Rightarrow> 'k) \<Rightarrow> nat \<Rightarrow> (js_string \<Rightarrow> nat \<Rightarrow> error_kind + 'a) \<Rightarrow> nat \<Rightarrow> js_string
     \<Rightarrow> ('k, 'a) core_state \<Rightarrow> (error_kind + 'a weather_record) \<times> ('k, 'a) core_state" where
  "core_getWeather casefold ttl prov now cityInput s =
     (let trimmed = trim cityInput in
      if trimmed = [] \<or> length trimmed > 100 then (Inl InvalidInput, s)
      else
        let key = casefold trimmed in
        case cache_get ttl now (cache s) key of
          Some r \<Rightarrow> (Inr r, s)
        | None \<Rightarrow>
            (case adapter_fetch prov trimmed now of
               Inr r \<Rightarrow>
                 (Inr r, s\<lparr>cache := cache_put now (cache s) key r,
                           provider_calls := provider_calls s @ [trimmed]\<rparr>)
             | Inl e \<Rightarrow> (Inl e, s\<lparr>provider_calls := provider_calls s @ [trimmed]\<rparr>)))"

text \<open>
  Modelled from the spec: two stand-ins for what the specification leaves open, used to
  run the use case on concrete inputs. \<open>ascii_casefold\<close> folds the letters A to Z
  (the key is "case-folded"); \<open>echo_provider\<close> is a provider that always succeeds and
  reports the city it was asked for.
\<close>

definition ascii_casefold :: "js_string \<Rightarrow> js_string" where
  "ascii_casefold s = map (\<lambda>u. if 0x41 \<le> u \<and> u \<le> 0x5A then u + 0x20 else u) s"

definition echo_provider :: "js_string \<Rightarrow> nat \<Rightarrow> error_kind + js_string" where
  "echo_provider c now = Inr c"


section \<open>Trimming\<close>

text \<open>What \<open>trim\<close> removes is whitespace at the two ends and nothing else: the input is
  a run of whitespace, the trimmed string, and a run of whitespace; a trimmed string that is
  not empty neither begins nor ends with whitespace; trimming twice changes nothing.\<close>

lemma trim_Nil [simp]: "trim [] = []"
  by (simp add: trim_def)

lemma dropWhile_all_Nil:
  assumes "\<forall>u\<in>set (dropWhile P xs). P u"
  shows "dropWhile P xs = []"
proof (rule ccontr)
  assume ne: "dropWhile P xs \<noteq> []"
  then have "\<not> P (hd (dropWhile P xs))" by (rule hd_dropWhile)
  moreover from ne have "hd (dropWhile P xs) \<in> set (dropWhile P xs)" by simp
  ultimately show False using assms by blast
qed

lemma trim_suffix:
  "dropWhile isWhiteSpace s = trim s @ rev (takeWhile isWhiteSpace (rev (dropWhile isWhiteSpace s)))"
proof -
  let ?d = "dropWhile isWhiteSpace s"
  have "trim s @ rev (takeWhile isWhiteSpace (rev ?d))
          = rev (takeWhile isWhiteSpace (rev ?d) @ dropWhile isWhiteSpace (rev ?d))"
    by (simp only: trim_def rev_append)
  also have "\<dots> = rev (rev ?d)"
    by (simp only: takeWhile_dropWhile_id)
  finally show ?thesis by simp
qed

lemma trim_decomp:
  "s = takeWhile isWhiteSpace s @ trim s @ rev (takeWhile isWhiteSpace (rev (dropWhile isWhiteSpace s)))"
proof -
  have "s = takeWhile isWhiteSpace s @ dropWhile isWhiteSpace s"
    by simp
  then show ?thesis
    using trim_suffix [of s] by simp
qed

lemma trim_Nil_iff: "trim s = [] \<longleftrightarrow> (\<forall>u\<in>set s. isWhiteSpace u)"
proof
  assume "trim s = []"
  then have "\<forall>u\<in>set (dropWhile isWhiteSpace s). isWhiteSpace u"
    by (simp add: trim_def)
  then have "dropWhile isWhiteSpace s = []"
    by (rule dropWhile_all_Nil)
  then show "\<forall>u\<in>set s. isWhiteSpace u"
    by simp
next
  assume "\<forall>u\<in>set s. isWhiteSpace u"
  then have "dropWhile isWhiteSpace s = []"
    by simp
  then show "trim s = []"
    unfolding trim_def by (simp only: rev.simps dropWhile.simps)
qed

lemma length_trim_le: "length (trim s) \<le> length s"
proof -
  have "length (trim s) \<le> length (dropWhile isWhiteSpace s)"
    unfolding trim_def using length_dropWhile_le [of isWhiteSpace "rev (dropWhile isWhiteSpace s)"]
    by simp
  also have "\<dots> \<le> length s"
    by (rule length_dropWhile_le)
  finally show ?thesis .
qed

lemma trim_ends:
  assumes "trim s \<noteq> []"
  shows "\<not> isWhiteSpace (hd (trim s))" and "\<not> isWhiteSpace (last (trim s))"
proof -
  let ?d = "dropWhile isWhiteSpace s"
  let ?e = "dropWhile isWhiteSpace (rev ?d)"
  from assms have e: "?e \<noteq> []" by (simp add: trim_def)
  then have "\<not> isWhiteSpace (hd ?e)" by (rule hd_dropWhile)
  then show "\<not> isWhiteSpace (last (trim s))"
    using e by (simp add: trim_def last_rev)
  have d: "?d \<noteq> []"
  proof
    assume a: "?d = []"
    have "?e = []"
      by (simp only: a rev.simps dropWhile.simps)
    with e show False by simp
  qed
  then have nd: "\<not> isWhiteSpace (hd ?d)" by (rule hd_dropWhile)
  have "hd ?d = hd (trim s @ rev (takeWhile isWhiteSpace (rev ?d)))"
    using trim_suffix [of s] by simp
  also have "\<dots> = hd (trim s)"
    using assms by (rule hd_append2)
  finally show "\<not> isWhiteSpace (hd (trim s))" using nd by simp
qed

lemma trim_idem: "trim (trim s) = trim s"
proof (cases "trim s = []")
  case True
  then show ?thesis by simp
next
  case False
  then have "\<not> isWhiteSpace (hd (trim s))" by (rule trim_ends)
  with False have "dropWhile isWhiteSpace (trim s) = trim s"
    by (simp add: dropWhile_eq_self_iff)
  then have "trim (trim s) = rev (dropWhile isWhiteSpace (rev (trim s)))"
    by (simp add: trim_def)
  also have "\<dots> = trim s"
    by (simp add: trim_def)
  finally show ?thesis .
qed


text \<open>The inputs of the tests, and two strings of 101 code units.\<close>

lemma trim_examples:
  "trim (lit ''   '') = []"
  "trim (lit ''  London  '') = lit ''London''"
  "trim (lit ''london'') = lit ''london''"
  "trim (replicate 101 0x61) = replicate 101 0x61"
  "trim (0x20 # replicate 100 0x61) = replicate 100 0x61"
  by (simp_all add: trim_def lit_def isWhiteSpace_def)


section \<open>The submit handlers\<close>

text \<open>An input whose trimmed form is empty or too long stops in the handler; any other
  input is handed to \<open>onSubmit\<close> in its trimmed form. The second revision does so only when
  no submission is under way.\<close>

lemma handleSubmit_1_invalid:
  assumes "trim c = [] \<or> 100 < length (trim c)"
  shows "handleSubmit_1 onSubmit (st\<lparr>city := c\<rparr>) w
           = (st\<lparr>city := c,
                 inputError := Some (if trim c = [] then lit ''Please enter a city name''
                                     else lit ''City name cannot exceed 100 characters'')\<rparr>, w)"
  using assms by (auto simp: handleSubmit_1_def Let_def)

lemma handleSubmit_2_invalid:
  assumes "trim c = [] \<or> 100 < length (trim c)"
  shows "handleSubmit_2 onSubmit busy (st\<lparr>city := c\<rparr>) w
           = (if isSubmitting st \<or> busy then st\<lparr>city := c\<rparr>
              else st\<lparr>city := c,
                      inputError := Some (if trim c = [] then lit ''Please enter a city name''
                                          else lit ''City name cannot exceed 100 characters'')\<rparr>, w)"
  using assms by (auto simp: handleSubmit_2_def Let_def)

lemma handleSubmit_1_valid:
  assumes "trim c \<noteq> []" and "length (trim c) \<le> 100"
  shows "handleSubmit_1 onSubmit (st\<lparr>city := c\<rparr>) w
           = (st\<lparr>city := c, inputError := None\<rparr>, onSubmit (trim c) w)"
  using assms by (auto simp: handleSubmit_1_def Let_def)

lemma handleSubmit_2_valid:
  assumes "trim c \<noteq> []" and "length (trim c) \<le> 100" and "\<not> isSubmitting st" and "\<not> busy"
  shows "handleSubmit_2 onSubmit busy (st\<lparr>city := c\<rparr>) w
           = (st\<lparr>city := c, inputError := None\<rparr>, onSubmit (trim c) w)"
  using assms by (auto simp: handleSubmit_2_def Let_def)

text \<open>With \<open>App\<close> as the parent, a valid input leaves the browser as one request for
  the trimmed city.\<close>

lemma handleWeatherSearch_requests:
  "snd (handleWeatherSearch api_get c (app, net))
     = net @ [\<lparr>url = lit ''/weather'', params_city = trim c\<rparr>]"
  by (simp add: handleWeatherSearch_def getWeather_def Let_def split: outcome.splits)

lemma submit_1_valid_requests:
  assumes "trim c \<noteq> []" and "length (trim c) \<le> 100"
  shows "snd (snd (submit_1 api_get (st\<lparr>city := c\<rparr>) (app, net)))
           = net @ [\<lparr>url = lit ''/weather'', params_city = trim c\<rparr>]"
  using assms
  by (simp add: submit_1_def handleSubmit_1_valid handleWeatherSearch_requests trim_idem)

lemma submit_2_valid_requests:
  assumes "trim c \<noteq> []" and "length (trim c) \<le> 100"
    and "\<not> isSubmitting st" and "\<not> loading app"
  shows "snd (snd (submit_2 api_get (st\<lparr>city := c\<rparr>) (app, net)))
           = net @ [\<lparr>url = lit ''/weather'', params_city = trim c\<rparr>]"
  using assms
  by (simp add: submit_2_def handleSubmit_2_valid handleWeatherSearch_requests trim_idem)

text \<open>The client itself does not validate: called with the empty string, as one test of
  the repository does, it sends the request with an empty city.\<close>

lemma getWeather_empty_city_requested:
  "fst (getWeather api_get []) = [\<lparr>url = lit ''/weather'', params_city = []\<rparr>]"
  by (simp add: getWeather_def Let_def)


section \<open>The request and the success path of the client\<close>

text \<open>
  C6. Whatever the input string \<open>c\<close> and however the HTTP layer answers, \<open>getWeather\<close>
  issues exactly one request, to \<open>/weather\<close>, and its \<open>city\<close> parameter is \<open>c\<close> with the
  leading and the trailing whitespace removed: \<open>c\<close> is a run of whitespace, the city that
  is sent, and a run of whitespace, and the city that is sent is empty or neither begins
  nor ends with whitespace.
\<close>

theorem getWeather_sends_trimmed_city:
  "fst (getWeather api_get c) = [\<lparr>url = lit ''/weather'', params_city = trim c\<rparr>]
   \<and> (\<exists>pre suf. c = pre @ trim c @ suf \<and> list_all isWhiteSpace pre \<and> list_all isWhiteSpace suf)
   \<and> (trim c = [] \<or> (\<not> isWhiteSpace (hd (trim c)) \<and> \<not> isWhiteSpace (last (trim c))))"
proof -
  have sent: "fst (getWeather api_get c) = [\<lparr>url = lit ''/weather'', params_city = trim c\<rparr>]"
    by (simp add: getWeather_def Let_def)
  let ?pre = "takeWhile isWhiteSpace c"
  let ?suf = "rev (takeWhile isWhiteSpace (rev (dropWhile isWhiteSpace c)))"
  have "c = ?pre @ trim c @ ?suf"
    by (rule trim_decomp)
  moreover have "list_all isWhiteSpace ?pre"
    by (auto simp: list_all_iff dest: set_takeWhileD)
  moreover have "list_all isWhiteSpace ?suf"
    by (auto simp: list_all_iff dest: set_takeWhileD)
  ultimately have cut: "\<exists>pre suf. c = pre @ trim c @ suf \<and> list_all isWhiteSpace pre
                          \<and> list_all isWhiteSpace suf"
    by blast
  have ends: "trim c = [] \<or> (\<not> isWhiteSpace (hd (trim c)) \<and> \<not> isWhiteSpace (last (trim c)))"
    using trim_ends [of c] by blast
  from sent cut ends show ?thesis by blast
qed

text \<open>The input of the test \<open>'  Paris  '\<close>, an input with whitespace inside, and an input
  of whitespace only.\<close>

theorem getWeather_sends_trimmed_city_witness:
  "fst (getWeather (respond_with (Resolved () :: (unit, unit, unit) outcome)) (lit ''  Paris  ''))
     = [\<lparr>url = lit ''/weather'', params_city = lit ''Paris''\<rparr>]
   \<and> fst (getWeather (respond_with (Resolved () :: (unit, unit, unit) outcome))
           (lit '' New York  ''))
     = [\<lparr>url = lit ''/weather'', params_city = lit ''New York''\<rparr>]
   \<and> fst (getWeather (respond_with (Resolved () :: (unit, unit, unit) outcome)) (lit ''   ''))
     = [\<lparr>url = lit ''/weather'', params_city = []\<rparr>]"
proof -
  have t: "trim (lit ''  Paris  '') = lit ''Paris''"
    "trim (lit '' New York  '') = lit ''New York''"
    "trim (lit ''   '') = []"
    by (simp_all add: trim_def lit_def isWhiteSpace_def)
  from getWeather_sends_trimmed_city
         [of "respond_with (Resolved () :: (unit, unit, unit) outcome)" "lit ''  Paris  ''"]
       getWeather_sends_trimmed_city
         [of "respond_with (Resolved () :: (unit, unit, unit) outcome)" "lit '' New York  ''"]
       getWeather_sends_trimmed_city
         [of "respond_with (Resolved () :: (unit, unit, unit) outcome)" "lit ''   ''"]
  show ?thesis
    by (simp only: t)
qed

text \<open>
  C9. When the HTTP call resolves with payload \<open>p\<close>, \<open>getWeather\<close> returns \<open>p\<close> itself:
  the payload is not validated and not transformed, so a payload that breaks the
  invariants of the data model reaches the caller as it arrived.
\<close>

theorem getWeather_returns_payload_unchanged:
  assumes "api_get \<lparr>url = lit ''/weather'', params_city = trim c\<rparr> = Resolved p"
  shows "getWeather api_get c = ([\<lparr>url = lit ''/weather'', params_city = trim c\<rparr>], Inr p)"
  using assms by (simp add: getWeather_def Let_def)

text \<open>The payload \<open>out_of_range_payload\<close> (humidity 150, wind speed \<open>-1\<close>, empty
  condition) breaks the invariants and is returned unchanged.\<close>

theorem getWeather_returns_payload_unchanged_witness:
  "\<not> spec_record_invariants out_of_range_payload
   \<and> getWeather (respond_with (Resolved out_of_range_payload :: (CityWeather, unit, unit) outcome))
        (lit ''London'')
     = ([\<lparr>url = lit ''/weather'', params_city = trim (lit ''London'')\<rparr>], Inr out_of_range_payload)"
  using getWeather_returns_payload_unchanged
          [of "respond_with (Resolved out_of_range_payload :: (CityWeather, unit, unit) outcome)"
              "lit ''London''" out_of_range_payload]
  by (simp add: respond_with_def spec_record_invariants_def out_of_range_payload_def)


section \<open>The failure paths of the client\<close>

text \<open>
  C3. A timeout of the transport reaches the \<open>catch\<close> block as an Axios error with the
  code \<open>ECONNABORTED\<close> and no response. \<open>getWeather\<close> then rejects with the
  \<open>WeatherAPIError\<close> whose code is \<open>TIMEOUT\<close> (status 408): it returns no record and
  throws no other kind.
\<close>

theorem transport_timeout_is_TIMEOUT:
  assumes "api_get \<lparr>url = lit ''/weather'', params_city = trim c\<rparr> = RejectedAxios e"
    and "err_code e = Some (lit ''ECONNABORTED'')"
    and "response e = None"
  shows "snd (getWeather api_get c)
           = Inl (ApiError \<lparr>message = lit ''Request timed out. Please try again.'',
                            code = lit ''TIMEOUT'', statusCode = 408, details = Map.empty\<rparr>)"
  using assms by (simp add: getWeather_def Let_def catchAxiosError_def new_WeatherAPIError_def)

theorem transport_timeout_is_TIMEOUT_witness:
  "snd (getWeather
          (respond_with (RejectedAxios \<lparr>err_code = Some (lit ''ECONNABORTED''), response = None\<rparr>
             :: (unit, unit, unit) outcome))
          (lit ''London''))
     = Inl (ApiError \<lparr>message = lit ''Request timed out. Please try again.'',
                      code = lit ''TIMEOUT'', statusCode = 408, details = Map.empty\<rparr>)"
  using transport_timeout_is_TIMEOUT
          [of "respond_with (RejectedAxios \<lparr>err_code = Some (lit ''ECONNABORTED''), response = None\<rparr>
                               :: (unit, unit, unit) outcome)"
              "lit ''London''" "\<lparr>err_code = Some (lit ''ECONNABORTED''), response = None\<rparr>"]
  by (simp add: respond_with_def)

text \<open>
  C4. An Axios error with no HTTP response and without the timeout code is a connection
  failure: \<open>getWeather\<close> rejects with the \<open>WeatherAPIError\<close> whose code is
  \<open>NETWORK_ERROR\<close> (status 0).
\<close>

theorem connection_failure_is_NETWORK_ERROR:
  assumes "api_get \<lparr>url = lit ''/weather'', params_city = trim c\<rparr> = RejectedAxios e"
    and "response e = None"
    and "err_code e \<noteq> Some (lit ''ECONNABORTED'')"
  shows "snd (getWeather api_get c)
           = Inl (ApiError
               \<lparr>message = lit ''Unable to connect to weather service. Please check your internet connection.'',
                code = lit ''NETWORK_ERROR'', statusCode = 0, details = Map.empty\<rparr>)"
  using assms by (simp add: getWeather_def Let_def catchAxiosError_def new_WeatherAPIError_def)

theorem connection_failure_is_NETWORK_ERROR_witness:
  "snd (getWeather
          (respond_with (RejectedAxios \<lparr>err_code = Some (lit ''ERR_NETWORK''), response = None\<rparr>
             :: (unit, unit, unit) outcome))
          (lit ''London''))
     = Inl (ApiError
         \<lparr>message = lit ''Unable to connect to weather service. Please check your internet connection.'',
          code = lit ''NETWORK_ERROR'', statusCode = 0, details = Map.empty\<rparr>)
   \<and> snd (getWeather
          (respond_with (RejectedAxios \<lparr>err_code = None, response = None\<rparr>
             :: (unit, unit, unit) outcome))
          (lit ''London''))
     = Inl (ApiError
         \<lparr>message = lit ''Unable to connect to weather service. Please check your internet connection.'',
          code = lit ''NETWORK_ERROR'', statusCode = 0, details = Map.empty\<rparr>)"
  using connection_failure_is_NETWORK_ERROR
          [of "respond_with (RejectedAxios \<lparr>err_code = Some (lit ''ERR_NETWORK''), response = None\<rparr>
                               :: (unit, unit, unit) outcome)"
              "lit ''London''" "\<lparr>err_code = Some (lit ''ERR_NETWORK''), response = None\<rparr>"]
        connection_failure_is_NETWORK_ERROR
          [of "respond_with (RejectedAxios \<lparr>err_code = None, response = None\<rparr>
                               :: (unit, unit, unit) outcome)"
              "lit ''London''" "\<lparr>err_code = None, response = None\<rparr>"]
  by (simp add: respond_with_def lit_def)

text \<open>
  C10. When the HTTP call rejects with a value that is not an Axios error, \<open>getWeather\<close>
  throws that very value again; what the caller catches is then not a \<open>WeatherAPIError\<close>.
\<close>

theorem getWeather_rethrows_non_axios:
  assumes "api_get \<lparr>url = lit ''/weather'', params_city = trim c\<rparr> = RejectedOther x"
  shows "snd (getWeather api_get c) = Inl (Rethrown x)
         \<and> (\<forall>e. snd (getWeather api_get c) \<noteq> Inl (ApiError e))"
  using assms by (simp add: getWeather_def Let_def)

text \<open>The rejections of the tests: \<open>undefined\<close>, a plain \<open>Error\<close>, and an object.\<close>

theorem getWeather_rethrows_non_axios_witness:
  "snd (getWeather (respond_with (RejectedOther JsUndefined :: (unit, unit, js_value) outcome))
          (lit ''London'')) = Inl (Rethrown JsUndefined)
   \<and> snd (getWeather
          (respond_with (RejectedOther (JsError (lit ''Some other error'')) :: (unit, unit, js_value) outcome))
          (lit ''London'')) = Inl (Rethrown (JsError (lit ''Some other error'')))
   \<and> snd (getWeather (respond_with (RejectedOther (JsObject []) :: (unit, unit, js_value) outcome))
          (lit ''London'')) = Inl (Rethrown (JsObject []))"
  using getWeather_rethrows_non_axios
          [of "respond_with (RejectedOther JsUndefined :: (unit, unit, js_value) outcome)"
              "lit ''London''" JsUndefined]
        getWeather_rethrows_non_axios
          [of "respond_with (RejectedOther (JsError (lit ''Some other error''))
                               :: (unit, unit, js_value) outcome)" "lit ''London''"
              "JsError (lit ''Some other error'')"]
        getWeather_rethrows_non_axios
          [of "respond_with (RejectedOther (JsObject []) :: (unit, unit, js_value) outcome)"
              "lit ''London''" "JsObject []"]
  by (simp add: respond_with_def)

text \<open>
  C2, as the code has it. For an HTTP error response whose body carries \<open>code\<close>, \<open>message\<close> and
  \<open>details\<close>, \<open>getWeather\<close> issues one request and rejects with a \<open>WeatherAPIError\<close>:
  its details are those of the body, its status is the HTTP status, its code and its message
  are those of the body when they are not empty. An empty message is replaced by
  \<open>'Failed to fetch weather data'\<close>, an empty code by \<open>'UNKNOWN_ERROR'\<close>. No retry, no
  record in place of the error.
\<close>

theorem error_body_surfaced:
  assumes "api_get \<lparr>url = lit ''/weather'', params_city = trim c\<rparr> = RejectedAxios e"
    and "response e = Some r"
    and "data r = Some b"
    and "body_code b = Some k"
    and "body_message b = Some m"
    and "body_details b = Some d"
  shows "getWeather api_get c
           = ([\<lparr>url = lit ''/weather'', params_city = trim c\<rparr>],
              Inl (ApiError
                \<lparr>message = (if m = [] then lit ''Failed to fetch weather data'' else m),
                 code = (if k = [] then lit ''UNKNOWN_ERROR'' else k),
                 statusCode = status r,
                 details = d\<rparr>))"
  using assms
  by (simp add: getWeather_def Let_def catchAxiosError_def new_WeatherAPIError_def or_else_def)

text \<open>The body of the tests for an unknown city.\<close>

theorem error_body_surfaced_witness:
  "getWeather
     (respond_with (RejectedAxios
        \<lparr>err_code = Some (lit ''ERR_BAD_REQUEST''),
         response = Some \<lparr>status = 422,
           data = Some \<lparr>body_code = Some (lit ''UNKNOWN_CITY''),
                         body_message = Some (lit ''Invalid or unknown city: Atlantis''),
                         body_details = Some Map.empty\<rparr>\<rparr>\<rparr>
        :: (unit, unit, unit) outcome))
     (lit ''Atlantis'')
   = ([\<lparr>url = lit ''/weather'', params_city = trim (lit ''Atlantis'')\<rparr>],
      Inl (ApiError \<lparr>message = lit ''Invalid or unknown city: Atlantis'', code = lit ''UNKNOWN_CITY'',
                       statusCode = 422, details = Map.empty\<rparr>))"
  using error_body_surfaced
          [of "respond_with (RejectedAxios
                 \<lparr>err_code = Some (lit ''ERR_BAD_REQUEST''),
                  response = Some \<lparr>status = 422,
                    data = Some \<lparr>body_code = Some (lit ''UNKNOWN_CITY''),
                                  body_message = Some (lit ''Invalid or unknown city: Atlantis''),
                                  body_details = Some Map.empty\<rparr>\<rparr>\<rparr>
                 :: (unit, unit, unit) outcome)"
              "lit ''Atlantis''"
              "\<lparr>err_code = Some (lit ''ERR_BAD_REQUEST''),
                response = Some \<lparr>status = 422,
                  data = Some \<lparr>body_code = Some (lit ''UNKNOWN_CITY''),
                                body_message = Some (lit ''Invalid or unknown city: Atlantis''),
                                body_details = Some Map.empty\<rparr>\<rparr>\<rparr>"
              "\<lparr>status = 422,
                data = Some \<lparr>body_code = Some (lit ''UNKNOWN_CITY''),
                              body_message = Some (lit ''Invalid or unknown city: Atlantis''),
                              body_details = Some Map.empty\<rparr>\<rparr>"
              "\<lparr>body_code = Some (lit ''UNKNOWN_CITY''),
                body_message = Some (lit ''Invalid or unknown city: Atlantis''),
                body_details = Some Map.empty\<rparr>"
              "lit ''UNKNOWN_CITY''" "lit ''Invalid or unknown city: Atlantis''" Map.empty]
  by (simp add: respond_with_def lit_def)

text \<open>A body of type \<open>ErrorResponse\<close> with the message \<open>''\<close>: the error thrown does
  not carry the message of the body.\<close>

theorem empty_message_replaced_counterexample:
  "snd (getWeather
          (respond_with (RejectedAxios
             \<lparr>err_code = Some (lit ''ERR_BAD_REQUEST''),
              response = Some \<lparr>status = 422,
                data = Some \<lparr>body_code = Some (lit ''BAD_REQUEST''), body_message = Some [],
                              body_details = Some Map.empty\<rparr>\<rparr>\<rparr>
             :: (unit, unit, unit) outcome))
          (lit ''London''))
     = Inl (ApiError \<lparr>message = lit ''Failed to fetch weather data'', code = lit ''BAD_REQUEST'',
                      statusCode = 422, details = Map.empty\<rparr>)
   \<and> lit ''Failed to fetch weather data'' \<noteq> []"
  by (simp add: getWeather_def Let_def respond_with_def catchAxiosError_def
        new_WeatherAPIError_def or_else_def lit_def)

text \<open>
  C5, as the code has it. An HTTP error response that carries no code (no body, or a body whose
  \<open>code\<close> is missing or empty) is reported under the catch-all code \<open>UNKNOWN_ERROR\<close>
  with the HTTP status; for a response without body this needs an Axios code other than
  \<open>ECONNABORTED\<close>. A body with a code of its own that is not empty, whatever the code is
  and whatever else the body carries, is reported under that code with the HTTP status.
\<close>

theorem response_code_kept_else_UNKNOWN_ERROR:
  assumes "api_get \<lparr>url = lit ''/weather'', params_city = trim c\<rparr> = RejectedAxios e"
    and "response e = Some r"
  shows "((case data r of
             None \<Rightarrow> err_code e \<noteq> Some (lit ''ECONNABORTED'')
           | Some b \<Rightarrow> body_code b = None \<or> body_code b = Some []) \<longrightarrow>
          snd (getWeather api_get c)
            = Inl (ApiError
                \<lparr>message = (case data r of
                              None \<Rightarrow> lit ''Failed to fetch weather data''
                            | Some b \<Rightarrow> or_else (body_message b) (lit ''Failed to fetch weather data'')),
                 code = lit ''UNKNOWN_ERROR'',
                 statusCode = status r,
                 details = (case Option.bind (data r) body_details of
                              None \<Rightarrow> Map.empty
                            | Some d \<Rightarrow> d)\<rparr>))
         \<and> (data r = Some b \<and> body_code b = Some k \<and> k \<noteq> [] \<longrightarrow>
          snd (getWeather api_get c)
            = Inl (ApiError
                \<lparr>message = or_else (body_message b) (lit ''Failed to fetch weather data''),
                 code = k,
                 statusCode = status r,
                 details = (case body_details b of None \<Rightarrow> Map.empty | Some d \<Rightarrow> d)\<rparr>))"
  using assms
  by (auto simp: getWeather_def Let_def catchAxiosError_def new_WeatherAPIError_def or_else_def
           split: option.splits)

text \<open>A 500 without body, a 404 whose body has none of the three properties, and a 500
  whose body has a code and nothing else.\<close>

theorem response_code_kept_else_UNKNOWN_ERROR_witness:
  "snd (getWeather
          (respond_with (RejectedAxios
             \<lparr>err_code = Some (lit ''ERR_BAD_RESPONSE''),
              response = Some \<lparr>status = 500, data = None\<rparr>\<rparr> :: (unit, unit, unit) outcome))
          (lit ''London''))
     = Inl (ApiError \<lparr>message = lit ''Failed to fetch weather data'', code = lit ''UNKNOWN_ERROR'',
                      statusCode = 500, details = Map.empty\<rparr>)
   \<and> snd (getWeather
          (respond_with (RejectedAxios
             \<lparr>err_code = Some (lit ''ERR_BAD_REQUEST''),
              response = Some \<lparr>status = 404,
                data = Some \<lparr>body_code = None, body_message = None, body_details = None\<rparr>\<rparr>\<rparr>
             :: (unit, unit, unit) outcome))
          (lit ''London''))
     = Inl (ApiError \<lparr>message = lit ''Failed to fetch weather data'', code = lit ''UNKNOWN_ERROR'',
                      statusCode = 404, details = Map.empty\<rparr>)
   \<and> snd (getWeather
          (respond_with (RejectedAxios
             \<lparr>err_code = Some (lit ''ERR_BAD_RESPONSE''),
              response = Some \<lparr>status = 500,
                data = Some \<lparr>body_code = Some (lit ''CUSTOM_CODE''), body_message = None,
                              body_details = None\<rparr>\<rparr>\<rparr>
             :: (unit, unit, unit) outcome))
          (lit ''London''))
     = Inl (ApiError \<lparr>message = lit ''Failed to fetch weather data'', code = lit ''CUSTOM_CODE'',
                      statusCode = 500, details = Map.empty\<rparr>)"
proof -
  let ?e1 = "\<lparr>err_code = Some (lit ''ERR_BAD_RESPONSE''),
               response = Some \<lparr>status = 500, data = None\<rparr>\<rparr> :: unit AxiosError"
  let ?b2 = "\<lparr>body_code = None, body_message = None, body_details = None\<rparr> :: unit ErrorResponse"
  let ?e2 = "\<lparr>err_code = Some (lit ''ERR_BAD_REQUEST''),
               response = Some \<lparr>status = 404, data = Some ?b2\<rparr>\<rparr>"
  let ?b3 = "\<lparr>body_code = Some (lit ''CUSTOM_CODE''), body_message = None,
               body_details = None\<rparr> :: unit ErrorResponse"
  let ?e3 = "\<lparr>err_code = Some (lit ''ERR_BAD_RESPONSE''),
               response = Some \<lparr>status = 500, data = Some ?b3\<rparr>\<rparr>"
  have ne: "lit ''CUSTOM_CODE'' \<noteq> []" "lit ''ERR_BAD_RESPONSE'' \<noteq> lit ''ECONNABORTED''"
    by (simp_all add: lit_def)
  from response_code_kept_else_UNKNOWN_ERROR
         [of "respond_with (RejectedAxios ?e1 :: (unit, unit, unit) outcome)" "lit ''London''" ?e1
             "\<lparr>status = 500, data = None\<rparr>" ?b2 "[]"]
       response_code_kept_else_UNKNOWN_ERROR
         [of "respond_with (RejectedAxios ?e2 :: (unit, unit, unit) outcome)" "lit ''London''" ?e2
             "\<lparr>status = 404, data = Some ?b2\<rparr>" ?b2 "[]"]
       response_code_kept_else_UNKNOWN_ERROR
         [of "respond_with (RejectedAxios ?e3 :: (unit, unit, unit) outcome)" "lit ''London''" ?e3
             "\<lparr>status = 500, data = Some ?b3\<rparr>" ?b3 "lit ''CUSTOM_CODE''"]
  show ?thesis
    by (simp add: respond_with_def or_else_def ne)
qed

text \<open>A body whose code belongs to no taxonomy is passed on under that code, not under
  \<open>UNKNOWN_ERROR\<close>.\<close>

theorem unrecognized_code_passed_through_counterexample:
  "snd (getWeather
          (respond_with (RejectedAxios
             \<lparr>err_code = Some (lit ''ERR_BAD_RESPONSE''),
              response = Some \<lparr>status = 500,
                data = Some \<lparr>body_code = Some (lit ''TEAPOT''),
                              body_message = Some (lit ''short and stout''),
                              body_details = Some Map.empty\<rparr>\<rparr>\<rparr>
             :: (unit, unit, unit) outcome))
          (lit ''London''))
     = Inl (ApiError \<lparr>message = lit ''short and stout'', code = lit ''TEAPOT'',
                      statusCode = 500, details = Map.empty\<rparr>)
   \<and> lit ''TEAPOT'' \<noteq> lit ''UNKNOWN_ERROR''"
  by (simp add: getWeather_def Let_def respond_with_def catchAxiosError_def
        new_WeatherAPIError_def or_else_def lit_def)


section \<open>Validation in the form\<close>

text \<open>
  C1, as the code has it. For a city whose trimmed form is empty or longer than 100 code units, a
  submit never calls \<open>onSubmit\<close>: the world outside the form is unchanged, and with \<open>App\<close>
  as the parent no request is issued and the state of \<open>App\<close> is unchanged. The first
  revision sets the input error. The second revision sets it unless a submission is under
  way (\<open>isSubmitting\<close> or \<open>loading\<close>); then the submit is dropped and the form is unchanged.
\<close>

theorem invalid_city_not_fetched:
  assumes "trim c = [] \<or> 100 < length (trim c)"
  shows "handleSubmit_1 onSubmit1 (st1\<lparr>city := c\<rparr>) w1
           = (st1\<lparr>city := c,
                  inputError := Some (if trim c = [] then lit ''Please enter a city name''
                                      else lit ''City name cannot exceed 100 characters'')\<rparr>, w1)
         \<and> handleSubmit_2 onSubmit2 busy (st2\<lparr>city := c\<rparr>) w2
           = (if isSubmitting st2 \<or> busy then st2\<lparr>city := c\<rparr>
              else st2\<lparr>city := c,
                       inputError := Some (if trim c = [] then lit ''Please enter a city name''
                                           else lit ''City name cannot exceed 100 characters'')\<rparr>, w2)
         \<and> snd (submit_1 api_get1 (st1\<lparr>city := c\<rparr>) (app1, net1)) = (app1, net1)
         \<and> snd (submit_2 api_get2 (st2\<lparr>city := c\<rparr>) (app2, net2)) = (app2, net2)"
  using assms
  by (simp add: handleSubmit_1_invalid handleSubmit_2_invalid submit_1_def submit_2_def)

text \<open>Whitespace only, in both revisions, with the mock of the tests and with \<open>App\<close>.\<close>

theorem invalid_city_not_fetched_witness:
  "handleSubmit_1 mock_onSubmit \<lparr>city = lit ''   '', inputError = None\<rparr> []
     = (\<lparr>city = lit ''   '', inputError = Some (lit ''Please enter a city name'')\<rparr>, [])
   \<and> handleSubmit_2 mock_onSubmit False
         \<lparr>city = lit ''   '', inputError = None, isSubmitting = False\<rparr> []
     = (\<lparr>city = lit ''   '', inputError = Some (lit ''Please enter a city name''),
         isSubmitting = False\<rparr>, [])
   \<and> snd (submit_1 (respond_with (Resolved out_of_range_payload :: (CityWeather, unit, unit) outcome))
          \<lparr>city = lit ''   '', inputError = None\<rparr>
          (\<lparr>weather = None, loading = False, error = None\<rparr>, []))
     = (\<lparr>weather = None, loading = False, error = None\<rparr>, [])
   \<and> snd (submit_2 (respond_with (Resolved out_of_range_payload :: (CityWeather, unit, unit) outcome))
          \<lparr>city = lit ''   '', inputError = None, isSubmitting = False\<rparr>
          (\<lparr>weather = None, loading = False, error = None\<rparr>, []))
     = (\<lparr>weather = None, loading = False, error = None\<rparr>, [])"
proof -
  have invalid: "trim (lit ''   '') = [] \<or> 100 < length (trim (lit ''   ''))"
    by (simp add: trim_examples)
  from invalid_city_not_fetched
         [where c = "lit ''   ''" and ?onSubmit1.0 = mock_onSubmit and ?onSubmit2.0 = mock_onSubmit
            and ?st1.0 = "\<lparr>city = [], inputError = None\<rparr>"
            and ?st2.0 = "\<lparr>city = [], inputError = None, isSubmitting = False\<rparr>"
            and ?w1.0 = "[]" and ?w2.0 = "[]" and busy = False
            and ?api_get1.0 = "respond_with (Resolved out_of_range_payload :: (CityWeather, unit, unit) outcome)"
            and ?api_get2.0 = "respond_with (Resolved out_of_range_payload :: (CityWeather, unit, unit) outcome)"
            and ?app1.0 = "\<lparr>weather = None, loading = False, error = None\<rparr>"
            and ?app2.0 = "\<lparr>weather = None, loading = False, error = None\<rparr>"
            and ?net1.0 = "[]" and ?net2.0 = "[]", OF invalid]
  show ?thesis
    by (simp add: trim_examples)
qed

text \<open>The second revision while \<open>loading\<close> holds: the empty city is not rejected, the
  handler returns before it validates.\<close>

theorem busy_form_drops_empty_city_counterexample:
  "trim (city \<lparr>city = [], inputError = None, isSubmitting = False\<rparr>) = []
   \<and> handleSubmit_2 mock_onSubmit True \<lparr>city = [], inputError = None, isSubmitting = False\<rparr> []
       = (\<lparr>city = [], inputError = None, isSubmitting = False\<rparr>, [])"
  by (simp add: handleSubmit_2_def)

text \<open>
  C7, as the code has it. For an input whose trimmed form has exactly 101 code units, a submit never
  calls \<open>onSubmit\<close> and sets the input error \<open>'City name cannot exceed 100 characters'\<close>
  (in the second revision unless a submission is under way). The length that counts is
  the length after trimming.
\<close>

theorem trimmed_length_101_rejected:
  assumes "length (trim c) = 101"
  shows "handleSubmit_1 onSubmit1 (st1\<lparr>city := c\<rparr>) w1
           = (st1\<lparr>city := c,
                  inputError := Some (lit ''City name cannot exceed 100 characters'')\<rparr>, w1)
         \<and> handleSubmit_2 onSubmit2 busy (st2\<lparr>city := c\<rparr>) w2
           = (if isSubmitting st2 \<or> busy then st2\<lparr>city := c\<rparr>
              else st2\<lparr>city := c,
                       inputError := Some (lit ''City name cannot exceed 100 characters'')\<rparr>, w2)"
proof -
  from assms have "trim c \<noteq> []" and "trim c = [] \<or> 100 < length (trim c)"
    by auto
  then show ?thesis
    by (simp add: handleSubmit_1_invalid handleSubmit_2_invalid)
qed

theorem trimmed_length_101_rejected_witness:
  "handleSubmit_1 mock_onSubmit \<lparr>city = replicate 101 0x61, inputError = None\<rparr> []
     = (\<lparr>city = replicate 101 0x61,
         inputError = Some (lit ''City name cannot exceed 100 characters'')\<rparr>, [])
   \<and> handleSubmit_2 mock_onSubmit False
         \<lparr>city = replicate 101 0x61, inputError = None, isSubmitting = False\<rparr> []
     = (\<lparr>city = replicate 101 0x61,
         inputError = Some (lit ''City name cannot exceed 100 characters''),
         isSubmitting = False\<rparr>, [])"
proof -
  have len: "length (trim (replicate 101 (0x61 :: code_unit))) = 101"
    by (simp add: trim_examples)
  from trimmed_length_101_rejected
         [where c = "replicate 101 0x61" and ?onSubmit1.0 = mock_onSubmit and ?onSubmit2.0 = mock_onSubmit
            and ?st1.0 = "\<lparr>city = [], inputError = None\<rparr>"
            and ?st2.0 = "\<lparr>city = [], inputError = None, isSubmitting = False\<rparr>"
            and ?w1.0 = "[]" and ?w2.0 = "[]" and busy = False, OF len]
  show ?thesis
    by simp
qed

text \<open>An input of 101 code units, a space and 100 letters: it is accepted and submitted as
  the 100 letters.\<close>

theorem padded_101_chars_submitted_counterexample:
  "length (0x20 # replicate 100 (0x61 :: code_unit)) = 101
   \<and> handleSubmit_1 mock_onSubmit \<lparr>city = 0x20 # replicate 100 0x61, inputError = None\<rparr> []
       = (\<lparr>city = 0x20 # replicate 100 0x61, inputError = None\<rparr>, [replicate 100 0x61])"
  by (simp add: handleSubmit_1_def Let_def mock_onSubmit_def trim_examples)


section \<open>Cache hits and expiry in the retrieval pipeline\<close>

lemma cache_get_put_same:
  "cache_get ttl now (cache_put inserted m k r) k = (if now - inserted > ttl then None else Some r)"
  by (simp add: cache_get_def cache_put_def)

lemma core_getWeather_fetch:
  assumes "trim c \<noteq> []" and "length (trim c) \<le> 100"
    and "cache_get ttl now (cache s) (casefold (trim c)) = None"
  shows "core_getWeather casefold ttl prov now c s
           = (case prov (trim c) now of
                Inr a \<Rightarrow>
                  (Inr \<lparr>measured = a, fetched_at_time = now\<rparr>,
                   s\<lparr>cache := cache_put now (cache s) (casefold (trim c))
                                 \<lparr>measured = a, fetched_at_time = now\<rparr>,
                     provider_calls := provider_calls s @ [trim c]\<rparr>)
              | Inl e \<Rightarrow> (Inl e, s\<lparr>provider_calls := provider_calls s @ [trim c]\<rparr>))"
  using assms
  by (simp add: core_getWeather_def Let_def adapter_fetch_def split: sum.splits)

lemma core_getWeather_hit:
  assumes "trim c \<noteq> []" and "length (trim c) \<le> 100"
    and "cache_get ttl now (cache s) (casefold (trim c)) = Some r"
  shows "core_getWeather casefold ttl prov now c s = (Inr r, s)"
  using assms by (simp add: core_getWeather_def Let_def)

text \<open>
  C8. Let a call for a valid city miss the cache at time \<open>t1\<close> and succeed with record
  \<open>r1\<close>: the record is stamped \<open>t1\<close> and the provider was called once. A second call at
  time \<open>t2\<close> for a valid city with the same normalized key returns the same record \<open>r1\<close>
  and leaves the state, hence the log of provider calls, unchanged when \<open>t2 - t1\<close> is at most
  the TTL. When \<open>t2 - t1\<close> exceeds the TTL and the provider succeeds again, the second call
  fetches again and returns a record stamped \<open>t2\<close>, later than \<open>t1\<close>.
\<close>

theorem cache_hit_within_ttl_refetch_after:
  assumes valid1: "trim c1 \<noteq> []" "length (trim c1) \<le> 100"
    and valid2: "trim c2 \<noteq> []" "length (trim c2) \<le> 100"
    and same_key: "casefold (trim c2) = casefold (trim c1)"
    and miss: "cache_get ttl t1 (cache s0) (casefold (trim c1)) = None"
    and first: "core_getWeather casefold ttl prov t1 c1 s0 = (Inr r1, s1)"
  shows "fetched_at_time r1 = t1
         \<and> provider_calls s1 = provider_calls s0 @ [trim c1]
         \<and> (t2 - t1 \<le> ttl \<longrightarrow> core_getWeather casefold ttl prov t2 c2 s1 = (Inr r1, s1))
         \<and> (t2 - t1 > ttl \<and> prov (trim c2) t2 = Inr a2 \<longrightarrow>
              core_getWeather casefold ttl prov t2 c2 s1
                = (Inr \<lparr>measured = a2, fetched_at_time = t2\<rparr>,
                   s1\<lparr>cache := cache_put t2 (cache s1) (casefold (trim c2))
                                  \<lparr>measured = a2, fetched_at_time = t2\<rparr>,
                      provider_calls := provider_calls s1 @ [trim c2]\<rparr>)
              \<and> fetched_at_time r1 < t2)"
proof -
  from first obtain a1 where
    r1: "r1 = \<lparr>measured = a1, fetched_at_time = t1\<rparr>" and
    s1: "s1 = s0\<lparr>cache := cache_put t1 (cache s0) (casefold (trim c1)) r1,
                 provider_calls := provider_calls s0 @ [trim c1]\<rparr>"
    using core_getWeather_fetch [where casefold = casefold and prov = prov, OF valid1 miss]
    by (auto split: sum.splits)
  have look: "cache_get ttl t2 (cache s1) (casefold (trim c2))
                = (if t2 - t1 > ttl then None else Some r1)"
    by (simp add: s1 same_key cache_get_put_same)
  have hit: "core_getWeather casefold ttl prov t2 c2 s1 = (Inr r1, s1)" if "t2 - t1 \<le> ttl"
    using that look core_getWeather_hit [where casefold = casefold and r = r1, OF valid2] by simp
  have refetch: "core_getWeather casefold ttl prov t2 c2 s1
                = (Inr \<lparr>measured = a2, fetched_at_time = t2\<rparr>,
                   s1\<lparr>cache := cache_put t2 (cache s1) (casefold (trim c2))
                                  \<lparr>measured = a2, fetched_at_time = t2\<rparr>,
                      provider_calls := provider_calls s1 @ [trim c2]\<rparr>)"
    if "t2 - t1 > ttl" and "prov (trim c2) t2 = Inr a2"
  proof -
    from that look have "cache_get ttl t2 (cache s1) (casefold (trim c2)) = None" by simp
    from core_getWeather_fetch [where casefold = casefold and prov = prov, OF valid2 this] that
    show ?thesis by simp
  qed
  have later: "fetched_at_time r1 < t2" if "t2 - t1 > ttl"
    using that by (simp add: r1)
  show ?thesis
    using hit refetch later by (simp add: r1 s1)
qed

text \<open>\<open>'  London  '\<close> at time 1000, then \<open>'london'\<close> at 1300 and at 1301, with a TTL of
  300 seconds.\<close>

theorem cache_hit_within_ttl_refetch_after_witness:
  "fst (core_getWeather ascii_casefold 300 echo_provider 1000 (lit ''  London  '')
          \<lparr>cache = Map.empty, provider_calls = []\<rparr>)
     = Inr \<lparr>measured = lit ''London'', fetched_at_time = 1000\<rparr>
   \<and> fst (core_getWeather ascii_casefold 300 echo_provider 1300 (lit ''london'')
          (snd (core_getWeather ascii_casefold 300 echo_provider 1000 (lit ''  London  '')
                  \<lparr>cache = Map.empty, provider_calls = []\<rparr>)))
     = Inr \<lparr>measured = lit ''London'', fetched_at_time = 1000\<rparr>
   \<and> provider_calls
        (snd (core_getWeather ascii_casefold 300 echo_provider 1300 (lit ''london'')
          (snd (core_getWeather ascii_casefold 300 echo_provider 1000 (lit ''  London  '')
                  \<lparr>cache = Map.empty, provider_calls = []\<rparr>))))
     = [lit ''London'']
   \<and> fst (core_getWeather ascii_casefold 300 echo_provider 1301 (lit ''london'')
          (snd (core_getWeather ascii_casefold 300 echo_provider 1000 (lit ''  London  '')
                  \<lparr>cache = Map.empty, provider_calls = []\<rparr>)))
     = Inr \<lparr>measured = lit ''london'', fetched_at_time = 1301\<rparr>
   \<and> provider_calls
        (snd (core_getWeather ascii_casefold 300 echo_provider 1301 (lit ''london'')
          (snd (core_getWeather ascii_casefold 300 echo_provider 1000 (lit ''  London  '')
                  \<lparr>cache = Map.empty, provider_calls = []\<rparr>))))
     = [lit ''London'', lit ''london'']"
proof -
  let ?s0 = "\<lparr>cache = Map.empty, provider_calls = []\<rparr> :: (js_string, js_string) core_state"
  let ?r1 = "\<lparr>measured = lit ''London'', fetched_at_time = 1000\<rparr>"
  let ?s1 = "?s0\<lparr>cache := cache_put 1000 (cache ?s0) (ascii_casefold (trim (lit ''  London  ''))) ?r1,
                 provider_calls := provider_calls ?s0 @ [trim (lit ''  London  '')]\<rparr>"
  have v1: "trim (lit ''  London  '') \<noteq> []" "length (trim (lit ''  London  '')) \<le> 100"
    by (simp_all add: trim_examples) (simp_all add: lit_def)
  have v2: "trim (lit ''london'') \<noteq> []" "length (trim (lit ''london'')) \<le> 100"
    by (simp_all add: trim_examples) (simp_all add: lit_def)
  have key: "ascii_casefold (trim (lit ''london'')) = ascii_casefold (trim (lit ''  London  ''))"
    by (simp add: trim_examples) (simp add: ascii_casefold_def lit_def)
  have miss: "cache_get 300 1000 (cache ?s0) (ascii_casefold (trim (lit ''  London  ''))) = None"
    by (simp add: cache_get_def)
  have first: "core_getWeather ascii_casefold 300 echo_provider 1000 (lit ''  London  '') ?s0
                 = (Inr ?r1, ?s1)"
    using core_getWeather_fetch [where casefold = ascii_casefold and prov = echo_provider, OF v1 miss]
    by (simp add: echo_provider_def trim_examples)
  note th = cache_hit_within_ttl_refetch_after
              [where casefold = ascii_casefold and prov = echo_provider, OF v1 v2 key miss first]
  from th [of 1300 "lit ''london''"] th [of 1301 "lit ''london''"]
  show ?thesis
    by (simp add: first echo_provider_def trim_examples)
qed

end
